theory Spec2Isabelle
  imports Complex_Main "HOL-Library.AList"
begin

section \<open>Values, CSV encoding and paths\<close>

text \<open>
  The export script streams the rows of a SQL query into a local CSV file, copies the
  file next to its destination and renames it over the destination. The model follows
  the script function by function. Everything outside the script (the database, the
  clock, the file system, the random staging name) is an explicit parameter: the record
  \<open>env\<close> says what the outside world answers and which call fails, the record
  \<open>world\<close> is the state the script changes.
\<close>

subsection \<open>Column values and their text\<close>

text \<open>
  A row is a sequence of Python values. \<open>csv.writer\<close> writes \<open>None\<close> as the empty
  string, a string as it is and every other value through \<open>str()\<close>. The model covers
  \<open>None\<close>, strings, integers and dates (floats and decimals are left out).
\<close>

datatype pyval = PyNone | PyStr string | PyInt int | PyDate nat nat nat

type_synonym row = "pyval list"

fun str_nat :: "nat \<Rightarrow> string" where
  "str_nat n =
     (if n < 10 then [''0123456789'' ! n]
      else str_nat (n div 10) @ [''0123456789'' ! (n mod 10)])"

declare str_nat.simps [simp del]

definition str_int :: "int \<Rightarrow> string" where
  "str_int i = (if i < 0 then CHR ''-'' # str_nat (nat (- i)) else str_nat (nat i))"

definition zfill :: "nat \<Rightarrow> string \<Rightarrow> string" where
  "zfill n s = replicate (n - length s) (CHR ''0'') @ s"

text \<open>\<open>str(date)\<close> is the ISO format \<open>YYYY-MM-DD\<close>.\<close>

definition isoformat :: "nat \<Rightarrow> nat \<Rightarrow> nat \<Rightarrow> string" where
  "isoformat y m d =
     zfill 4 (str_nat y) @ ''-'' @ zfill 2 (str_nat m) @ ''-'' @ zfill 2 (str_nat d)"

fun field_text :: "pyval \<Rightarrow> string" where
  "field_text PyNone = []"
| "field_text (PyStr s) = s"
| "field_text (PyInt i) = str_int i"
| "field_text (PyDate y m d) = isoformat y m d"

subsection \<open>The writer: \<open>csv.writer(f, lineterminator="\n")\<close>\<close>

text \<open>
  The dialect is the default one but for the line terminator: delimiter \<open>,\<close>, quote
  character \<open>"\<close>, minimal quoting, doubled quotes. A field is quoted when it holds the
  delimiter, the quote character, a line feed or a carriage return. A record of one
  empty field is written as \<open>""\<close>.
\<close>

definition DQ :: char where "DQ = CHR 0x22"
definition NL :: char where "NL = CHR 0x0A"
definition CR :: char where "CR = CHR 0x0D"

definition special :: "char \<Rightarrow> bool" where
  "special c = (c = CHR '','' \<or> c = DQ \<or> c = NL \<or> c = CR)"

definition quote_field :: "string \<Rightarrow> string" where
  "quote_field s = DQ # concat (map (\<lambda>c. if c = DQ then [DQ, DQ] else [c]) s) @ [DQ]"

definition csv_field :: "string \<Rightarrow> string" where
  "csv_field s = (if list_ex special s then quote_field s else s)"

fun join_fields :: "string list \<Rightarrow> string" where
  "join_fields [] = []"
| "join_fields [f] = f"
| "join_fields (f # g # fs) = f @ CHR '','' # join_fields (g # fs)"

definition writerow :: "row \<Rightarrow> string" where
  "writerow r =
     (let body = join_fields (map (csv_field \<circ> field_text) r)
      in (if r \<noteq> [] \<and> body = [] then [DQ, DQ] else body) @ [NL])"

definition writerows :: "row list \<Rightarrow> string" where
  "writerows rs = concat (map writerow rs)"

text \<open>
  How a reader of the file delimits records: a line feed outside quotes ends a record.
  The flag says whether the scan is inside a quoted field.
\<close>

fun csv_record_count :: "bool \<Rightarrow> string \<Rightarrow> nat" where
  "csv_record_count q [] = 0"
| "csv_record_count q (c # cs) =
     (if c = DQ then csv_record_count (\<not> q) cs
      else if c = NL \<and> \<not> q then Suc (csv_record_count q cs)
      else csv_record_count q cs)"

subsection \<open>Paths: \<open>pathlib.Path\<close>\<close>

text \<open>
  A path is its parent directory and its final component. \<open>suffix\<close> is the part of
  the name from its last dot on, when that dot is neither the first nor the last
  character of the name; \<open>with_suffix\<close> replaces it and refuses a path with an empty
  name.
\<close>

datatype path = Path (parent: string) (name: string)

datatype error =
    ValueError | MkdirError | ConnectError | ClosedConnection | ExecuteError
  | NoResultSet | FetchError | OpenError | WriteError | SameFileError | FileNotFound
  | CopyError | ReplaceError | AttributeError

definition rfind_dot :: "string \<Rightarrow> nat option" where
  "rfind_dot s =
     (if CHR ''.'' \<in> set s
      then Some (length s - Suc (length (takeWhile (\<lambda>c. c \<noteq> CHR ''.'') (rev s))))
      else None)"

definition suffix :: "string \<Rightarrow> string" where
  "suffix nm =
     (case rfind_dot nm of
        None \<Rightarrow> []
      | Some i \<Rightarrow> if 0 < i \<and> i < length nm - 1 then drop i nm else [])"

definition with_suffix :: "path \<Rightarrow> string \<Rightarrow> error + path" where
  "with_suffix p sfx =
     (if name p = [] then Inl ValueError
      else let old_suffix = suffix (name p)
           in Inr (Path (parent p) (take (length (name p) - length old_suffix) (name p) @ sfx)))"

section \<open>The outside world\<close>

subsection \<open>What the world answers\<close>

text \<open>
  One record per job run. The database's answer to the query (its column names, or none
  when the statement yields no result set, and its rows) and the value of each reading
  of the performance counter are given; the fault fields say which call raises.
  \<open>fetch_fails_at = Some k\<close> makes the \<open>k\<close>-th call of \<open>fetchmany\<close> (counted from 0)
  raise, \<open>write_fails_at = Some k\<close> the writing of the \<open>k\<close>-th batch.
\<close>

datatype copy_outcome = Copy_ok | Copy_fails_at_open | Copy_fails_after nat

record env =
  tmpdir :: string
  uuid4 :: string
  clock :: "nat \<Rightarrow> real"
  mkdir_fails :: bool
  connect_fails :: bool
  execute_fails :: bool
  description :: "string list option"
  result_rows :: "row list"
  fetch_fails_at :: "nat option"
  open_fails :: bool
  write_fails_at :: "nat option"
  copy_result :: copy_outcome
  replace_fails :: bool
  unlink_fails :: bool

subsection \<open>The state\<close>

text \<open>
  The file system maps a path to the content of the file there. \<open>history\<close> keeps, oldest
  first, every file-system call the script has made together with the file system right
  after it, so that a property of "any instant" is a property of every entry.
  \<open>conns\<close> holds one flag per connection ever opened (\<open>True\<close>: still open), \<open>reads\<close>
  counts the readings of the performance counter, \<open>stdout\<close> the printed lines.
\<close>

type_synonym fs = "path \<Rightarrow> string option"

type_synonym spans = "(string \<times> real) list"

datatype fs_op =
    Op_open path | Op_write path | Op_copy path path | Op_replace path path | Op_unlink path

datatype out_line =
    Span_line string real | Streamed_line nat real nat | Total_line real
  | Breakdown_line spans | Unaccounted_line real | Total_rows_line nat | Done_line string
  | Final_total_line real

record world =
  files :: fs
  history :: "(fs_op \<times> fs) list"
  conns :: "bool list"
  reads :: nat
  stdout :: "out_line list"

definition perf_counter :: "env \<Rightarrow> world \<Rightarrow> real \<times> world" where
  "perf_counter e w = (clock e (reads w), w\<lparr>reads := Suc (reads w)\<rparr>)"

definition py_print :: "out_line \<Rightarrow> world \<Rightarrow> world" where
  "py_print l w = w\<lparr>stdout := stdout w @ [l]\<rparr>"

text \<open>A file-system call: the new file system becomes current and is recorded.\<close>

definition fs_step :: "fs_op \<Rightarrow> fs \<Rightarrow> world \<Rightarrow> world" where
  "fs_step op f w = w\<lparr>files := f, history := history w @ [(op, f)]\<rparr>"

text \<open>\<open>open(p, "w")\<close> creates the file or truncates it; a write appends.\<close>

definition fs_open_w :: "path \<Rightarrow> world \<Rightarrow> world" where
  "fs_open_w p w = fs_step (Op_open p) ((files w)(p \<mapsto> [])) w"

definition fs_append :: "path \<Rightarrow> string \<Rightarrow> world \<Rightarrow> world" where
  "fs_append p s w =
     fs_step (Op_write p)
       ((files w)(p \<mapsto> (case files w p of None \<Rightarrow> s | Some c \<Rightarrow> c @ s))) w"

text \<open>\<open>Path.mkdir(parents=True, exist_ok=True)\<close>: changes no file.\<close>

definition mkdir :: "env \<Rightarrow> string \<Rightarrow> world \<Rightarrow> (error + unit) \<times> world" where
  "mkdir e d w = (if mkdir_fails e then (Inl MkdirError, w) else (Inr (), w))"

text \<open>
  \<open>shutil.copyfile(src, dst)\<close> refuses to copy a file onto itself, reads the source,
  opens (truncates) the target and writes it. A failure after the target was opened
  leaves the first bytes of the content there.
\<close>

definition copyfile :: "env \<Rightarrow> path \<Rightarrow> path \<Rightarrow> world \<Rightarrow> (error + unit) \<times> world" where
  "copyfile e src dst w =
     (if src = dst then (Inl SameFileError, w)
      else case files w src of
        None \<Rightarrow> (Inl FileNotFound, w)
      | Some c \<Rightarrow>
         (case copy_result e of
            Copy_fails_at_open \<Rightarrow> (Inl CopyError, fs_step (Op_copy src dst) (files w) w)
          | Copy_fails_after k \<Rightarrow>
              (Inl CopyError, fs_step (Op_copy src dst) ((files w)(dst \<mapsto> take k c)) w)
          | Copy_ok \<Rightarrow>
              (let w1 = fs_step (Op_copy src dst) ((files w)(dst \<mapsto> [])) w
               in (Inr (), fs_step (Op_copy src dst) ((files w1)(dst \<mapsto> c)) w1))))"

text \<open>
  \<open>os.replace(src, dst)\<close>: one step that removes the source name and makes the target
  name hold the source's content, or fails and changes nothing. The attempt is recorded
  either way.
\<close>

definition os_replace :: "env \<Rightarrow> path \<Rightarrow> path \<Rightarrow> world \<Rightarrow> (error + unit) \<times> world" where
  "os_replace e src dst w =
     (if replace_fails e then (Inl ReplaceError, fs_step (Op_replace src dst) (files w) w)
      else case files w src of
        None \<Rightarrow> (Inl ReplaceError, fs_step (Op_replace src dst) (files w) w)
      | Some c \<Rightarrow> (Inr (), fs_step (Op_replace src dst) ((files w)(src := None, dst \<mapsto> c)) w))"

text \<open>
  \<open>try: local_tmp.unlink(missing_ok=True) except Exception: pass\<close>: the deletion is
  attempted and an error of it is dropped.
\<close>

definition unlink_best_effort :: "env \<Rightarrow> path \<Rightarrow> world \<Rightarrow> world" where
  "unlink_best_effort e p w =
     (if unlink_fails e then fs_step (Op_unlink p) (files w) w
      else fs_step (Op_unlink p) ((files w)(p := None)) w)"

text \<open>\<open>pyodbc.connect\<close> gives a new connection, named by its index in \<open>conns\<close>.\<close>

definition connect :: "env \<Rightarrow> world \<Rightarrow> (error + nat) \<times> world" where
  "connect e w =
     (if connect_fails e then (Inl ConnectError, w)
      else (Inr (length (conns w)), w\<lparr>conns := conns w @ [True]\<rparr>))"

definition is_open :: "nat \<Rightarrow> world \<Rightarrow> bool" where
  "is_open cxn w = (cxn < length (conns w) \<and> conns w ! cxn)"

definition cxn_close :: "nat \<Rightarrow> world \<Rightarrow> (error + unit) \<times> world" where
  "cxn_close cxn w =
     (if is_open cxn w then (Inr (), w\<lparr>conns := (conns w)[cxn := False]\<rparr>)
      else (Inl ClosedConnection, w))"

section \<open>The script\<close>

subsection \<open>\<open>timed\<close>\<close>

text \<open>
  The context manager reads the counter, runs the block and, in its \<open>finally\<close> clause,
  reads the counter again, adds the difference to the bucket's entry for the label
  (\<open>bucket.get(label, 0.0) + dt\<close>) and prints it. The clause runs whether the block
  returned or raised. When the bucket is \<open>None\<close>, \<open>bucket.get\<close> raises
  \<open>AttributeError\<close> there, which replaces the block's own outcome. A dictionary keeps
  its keys in insertion order, as \<open>AList.update\<close> does.
\<close>

definition bucket_get :: "spans \<Rightarrow> string \<Rightarrow> real \<Rightarrow> real" where
  "bucket_get b label dflt = (case map_of b label of None \<Rightarrow> dflt | Some v \<Rightarrow> v)"

definition timed ::
  "env \<Rightarrow> string \<Rightarrow> spans option \<Rightarrow> (world \<Rightarrow> (error + 'a) \<times> world) \<Rightarrow> world
     \<Rightarrow> (error + 'a) \<times> spans option \<times> world" where
  "timed e label bucket block w =
     (let (t0, w1) = perf_counter e w;
          (r, w2) = block w1;
          (t1, w3) = perf_counter e w2;
          dt = t1 - t0
      in case bucket of
           None \<Rightarrow> (Inl AttributeError, None, w3)
         | Some b \<Rightarrow>
             (r, Some (AList.update label (bucket_get b label 0 + dt) b),
              py_print (Span_line label dt) w3))"

subsection \<open>\<open>stream_query_to_local_csv\<close>\<close>

text \<open>
  The cursor holds the rows not yet fetched; \<open>fetchmany\<close> hands out the next
  \<open>arraysize\<close> of them (fewer at the end, none when \<open>arraysize\<close> is 0).
\<close>

record cursor =
  arraysize :: nat
  pending :: "row list"
  fetches :: nat

definition fetchmany :: "env \<Rightarrow> cursor \<Rightarrow> (error + row list) \<times> cursor" where
  "fetchmany e cur =
     (if fetch_fails_at e = Some (fetches cur)
      then (Inl FetchError, cur\<lparr>fetches := Suc (fetches cur)\<rparr>)
      else (Inr (take (arraysize cur) (pending cur)),
            cur\<lparr>pending := drop (arraysize cur) (pending cur), fetches := Suc (fetches cur)\<rparr>))"

text \<open>
  The \<open>while True\<close> loop: fetch, stop at an empty batch, otherwise write the batch and
  count it. The measure is the number of rows still pending.
\<close>

function fetch_loop ::
  "env \<Rightarrow> path \<Rightarrow> cursor \<Rightarrow> nat \<Rightarrow> world \<Rightarrow> (error + nat) \<times> world" where
  "fetch_loop e f cur row_count w =
     (case fetchmany e cur of
        (Inl err, cur') \<Rightarrow> (Inl err, w)
      | (Inr rows, cur') \<Rightarrow>
          if rows = [] then (Inr row_count, w)
          else if write_fails_at e = Some (fetches cur) then (Inl WriteError, w)
          else fetch_loop e f cur' (row_count + length rows) (fs_append f (writerows rows) w))"
  by pat_completeness auto
termination
  by (relation "measure (\<lambda>(e, f, cur, row_count, w). length (pending cur))")
     (auto simp: fetchmany_def split: if_splits)

declare fetch_loop.simps [simp del]

definition stream_query_to_local_csv ::
  "env \<Rightarrow> nat \<Rightarrow> path \<Rightarrow> nat \<Rightarrow> bool \<Rightarrow> world \<Rightarrow> (error + nat) \<times> world" where
  "stream_query_to_local_csv e cxn local_csv_path asize include_header w =
     (if \<not> is_open cxn w then (Inl ClosedConnection, w)
      else if execute_fails e then (Inl ExecuteError, w)
      else case description e of
        None \<Rightarrow> (Inl NoResultSet, w)
      | Some cols \<Rightarrow>
          if open_fails e then (Inl OpenError, w)
          else
            (let cur = \<lparr>arraysize = asize, pending = result_rows e, fetches = 0\<rparr>;
                 w1 = fs_open_w local_csv_path w;
                 w2 = (if include_header
                       then fs_append local_csv_path (writerow (map PyStr cols)) w1 else w1)
             in fetch_loop e local_csv_path cur 0 w2))"

subsection \<open>\<open>save_csv_via_staging_streaming\<close>\<close>

text \<open>
  The staging file: \<open>Path(tempfile.gettempdir()) / f"{uuid.uuid4()}.csv"\<close>. The
  temporary directory and the random identifier come from the outside world.
\<close>

definition local_tmp_path :: "env \<Rightarrow> path" where
  "local_tmp_path e = Path (tmpdir e) (uuid4 e @ ''.csv'')"

text \<open>The block of the first span: it times the streaming itself once more.\<close>

definition read_stream_block ::
  "env \<Rightarrow> nat \<Rightarrow> path \<Rightarrow> nat \<Rightarrow> world \<Rightarrow> (error + nat) \<times> world" where
  "read_stream_block e cxn local_tmp asize w =
     (let (t0, w1) = perf_counter e w
      in case stream_query_to_local_csv e cxn local_tmp asize True w1 of
           (Inl err, w2) \<Rightarrow> (Inl err, w2)
         | (Inr rows_written, w2) \<Rightarrow>
             (let (t1, w3) = perf_counter e w2;
                  dt = t1 - t0
              in (Inr rows_written,
                  if dt > 0 then py_print (Streamed_line rows_written dt asize) w3 else w3)))"

definition save_csv_via_staging_streaming ::
  "env \<Rightarrow> nat \<Rightarrow> path \<Rightarrow> nat \<Rightarrow> spans option \<Rightarrow> world
     \<Rightarrow> (error + nat) \<times> spans option \<times> world" where
  "save_csv_via_staging_streaming e cxn final_unc asize spans w =
     (case mkdir e (parent final_unc) w of
        (Inl err, w1) \<Rightarrow> (Inl err, spans, w1)
      | (Inr _, w1) \<Rightarrow>
     (case with_suffix final_unc ''.tmp.csv'' of
        Inl err \<Rightarrow> (Inl err, spans, w1)
      | Inr unc_tmp \<Rightarrow>
     (let local_tmp = local_tmp_path e
      in case timed e ''READ_STREAM_TO_LOCAL_CSV'' spans
                (read_stream_block e cxn local_tmp asize) w1 of
        (Inl err, spans1, w2) \<Rightarrow> (Inl err, spans1, w2)
      | (Inr rows_written, spans1, w2) \<Rightarrow>
     (case timed e ''COPY_TO_UNC'' spans1 (copyfile e local_tmp unc_tmp) w2 of
        (Inl err, spans2, w3) \<Rightarrow> (Inl err, spans2, w3)
      | (Inr _, spans2, w3) \<Rightarrow>
     (case timed e ''RENAME_ON_UNC'' spans2 (os_replace e unc_tmp final_unc) w3 of
        (Inl err, spans3, w4) \<Rightarrow> (Inl err, spans3, w4)
      | (Inr _, spans3, w4) \<Rightarrow>
          (Inr rows_written, spans3, unlink_best_effort e local_tmp w4))))))"

subsection \<open>\<open>run_sales_export\<close>\<close>

text \<open>
  The block of the last span reports the total, the breakdown and the residual from the
  bucket as it is then, and closes the connection as its last statement.
\<close>

definition cleanup_block ::
  "env \<Rightarrow> real \<Rightarrow> spans option \<Rightarrow> nat \<Rightarrow> string \<Rightarrow> nat \<Rightarrow> world \<Rightarrow> (error + real) \<times> world" where
  "cleanup_block e job_T0 spans rows_total done_message cxn w =
     (let (t, w1) = perf_counter e w;
          total = t - job_T0
      in case spans of
           None \<Rightarrow> (Inl AttributeError, w1)
         | Some b \<Rightarrow>
             (let accounted = sum_list (map snd b);
                  w2 = py_print (Total_line total) w1;
                  w3 = py_print (Breakdown_line b) w2;
                  w4 = py_print (Unaccounted_line (total - accounted)) w3;
                  w5 = py_print (Total_rows_line rows_total) w4;
                  w6 = py_print (Done_line done_message) w5
              in case cxn_close cxn w6 of
                   (Inl err, w7) \<Rightarrow> (Inl err, w7)
                 | (Inr _, w7) \<Rightarrow> (Inr total, w7)))"

definition run_sales_export ::
  "env \<Rightarrow> nat \<Rightarrow> path \<Rightarrow> string \<Rightarrow> world \<Rightarrow> (error + real) \<times> world" where
  "run_sales_export e asize final_unc_path done_message w =
     (let (job_T0, w1) = perf_counter e w;
          (t, w2) = perf_counter e w1;
          spans = Some [(''IMPORTS'', t - job_T0)]
      in case timed e ''PREP'' spans (\<lambda>w. (Inr (), w)) w2 of
        (Inl err, spans1, w3) \<Rightarrow> (Inl err, w3)
      | (Inr _, spans1, w3) \<Rightarrow>
     (case timed e ''CONNECT'' spans1 (connect e) w3 of
        (Inl err, spans2, w4) \<Rightarrow> (Inl err, w4)
      | (Inr cxn, spans2, w4) \<Rightarrow>
     (case save_csv_via_staging_streaming e cxn final_unc_path asize spans2 w4 of
        (Inl err, spans3, w5) \<Rightarrow> (Inl err, w5)
      | (Inr rows_total, spans3, w5) \<Rightarrow>
     (case timed e ''CLEANUP'' spans3
             (cleanup_block e job_T0 spans3 rows_total done_message cxn) w5 of
        (Inl err, spans4, w6) \<Rightarrow> (Inl err, w6)
      | (Inr job_total, spans4, w6) \<Rightarrow> (Inr job_total, w6)))))"

subsection \<open>The three jobs\<close>

text \<open>
  The module runs three exports one after the other and adds up their times; an error
  of one ends the script. Each job has its own database, hence its own answers. The
  destination of each job is the literal the script passes as \<open>final_unc_path\<close>, split
  into directory and file name.
\<close>

definition share_dir :: string where
  "share_dir =
     [CHR 0x5C, CHR 0x5C] @ ''<file_share>'' @ [CHR 0x5C] @ ''Accounting'' @ [CHR 0x5C]
       @ ''<redacted_path>''"

definition job1_final_unc_path :: path where
  "job1_final_unc_path = Path share_dir ''SW_Sales_Chart_Data.csv''"

definition job2_final_unc_path :: path where
  "job2_final_unc_path = Path share_dir ''SW_Sales_Chart_Data.csv''"

definition job3_final_unc_path :: path where
  "job3_final_unc_path = Path share_dir ''SW_Sales_Chart_Data.csv''"

definition done_message :: string where
  "done_message = ''CoA Sales Chart Data Import Finished''"

definition main_script ::
  "env \<Rightarrow> env \<Rightarrow> env \<Rightarrow> nat \<Rightarrow> world \<Rightarrow> (error + real) \<times> world" where
  "main_script e1 e2 e3 ARRAY_SIZE w =
     (case run_sales_export e1 ARRAY_SIZE job1_final_unc_path done_message w of
        (Inl err, w1) \<Rightarrow> (Inl err, w1)
      | (Inr t1, w1) \<Rightarrow>
     (case run_sales_export e2 ARRAY_SIZE job2_final_unc_path done_message w1 of
        (Inl err, w2) \<Rightarrow> (Inl err, w2)
      | (Inr t2, w2) \<Rightarrow>
     (case run_sales_export e3 ARRAY_SIZE job3_final_unc_path done_message w2 of
        (Inl err, w3) \<Rightarrow> (Inl err, w3)
      | (Inr t3, w3) \<Rightarrow>
          (let final_total = 0 + t1 + t2 + t3
           in (Inr final_total, py_print (Final_total_line final_total) w3)))))"

section \<open>Vocabulary of the properties\<close>

text \<open>The part of the history that a run from \<open>w\<close> to \<open>w'\<close> added.\<close>

definition added_history :: "world \<Rightarrow> world \<Rightarrow> (fs_op \<times> fs) list" where
  "added_history w w' = drop (length (history w)) (history w')"

text \<open>The paths whose content or existence a call can change.\<close>

fun writes_to :: "fs_op \<Rightarrow> path \<Rightarrow> bool" where
  "writes_to (Op_open p) d = (p = d)"
| "writes_to (Op_write p) d = (p = d)"
| "writes_to (Op_copy src dst) d = (dst = d)"
| "writes_to (Op_replace src dst) d = (src = d \<or> dst = d)"
| "writes_to (Op_unlink p) d = (p = d)"

fun is_replace :: "fs_op \<Rightarrow> bool" where
  "is_replace (Op_replace src dst) = True"
| "is_replace op = False"

fun is_unlink :: "fs_op \<Rightarrow> bool" where
  "is_unlink (Op_unlink p) = True"
| "is_unlink op = False"

fun is_copy :: "fs_op \<Rightarrow> bool" where
  "is_copy (Op_copy src dst) = True"
| "is_copy op = False"

text \<open>The complete export of a result set: the header record, then one record per row.\<close>

definition complete_export :: "string list \<Rightarrow> row list \<Rightarrow> string" where
  "complete_export cols rs = writerow (map PyStr cols) @ writerows rs"

text \<open>The lines of a report, read back from the output (the last of each kind).\<close>

fun reported_breakdown :: "out_line list \<Rightarrow> spans option" where
  "reported_breakdown [] = None"
| "reported_breakdown (l # ls) =
     (case reported_breakdown ls of
        Some b \<Rightarrow> Some b
      | None \<Rightarrow> (case l of Breakdown_line b \<Rightarrow> Some b | _ \<Rightarrow> None))"

fun reported_total :: "out_line list \<Rightarrow> real option" where
  "reported_total [] = None"
| "reported_total (l # ls) =
     (case reported_total ls of
        Some t \<Rightarrow> Some t
      | None \<Rightarrow> (case l of Total_line t \<Rightarrow> Some t | _ \<Rightarrow> None))"

fun reported_unaccounted :: "out_line list \<Rightarrow> real option" where
  "reported_unaccounted [] = None"
| "reported_unaccounted (l # ls) =
     (case reported_unaccounted ls of
        Some t \<Rightarrow> Some t
      | None \<Rightarrow> (case l of Unaccounted_line t \<Rightarrow> Some t | _ \<Rightarrow> None))"

text \<open>History entries of calls that open or extend the file \<open>f\<close> and leave every other path
  as it is in \<open>f0\<close>.\<close>

definition writes_only :: "path \<Rightarrow> fs \<Rightarrow> (fs_op \<times> fs) list \<Rightarrow> bool" where
  "writes_only f f0 ext =
     list_all (\<lambda>(op, s). (op = Op_open f \<or> op = Op_write f) \<and> (\<forall>q. q \<noteq> f \<longrightarrow> s q = f0 q)) ext"

section \<open>Sample inputs\<close>

text \<open>
  The scenario of the specification: columns \<open>(Date, Site, Amount)\<close> and two rows, a
  world that answers every call, and a destination that already holds an export.
\<close>

definition sample_cols :: "string list" where
  "sample_cols = [''Date'', ''Site'', ''Amount'']"

definition sample_rows :: "row list" where
  "sample_rows =
     [[PyDate 2024 1 1, PyStr ''A'', PyInt 10], [PyDate 2024 1 2, PyStr ''B'', PyInt 20]]"

definition sample_env :: env where
  "sample_env =
     \<lparr>tmpdir = ''/tmp'', uuid4 = ''6f1c2a'', clock = real,
      mkdir_fails = False, connect_fails = False, execute_fails = False,
      description = Some sample_cols, result_rows = sample_rows,
      fetch_fails_at = None, open_fails = False, write_fails_at = None,
      copy_result = Copy_ok, replace_fails = False, unlink_fails = False\<rparr>"

definition sample_dest :: path where
  "sample_dest = Path ''/share/reports'' ''Sales.csv''"

definition sample_world :: world where
  "sample_world =
     \<lparr>files = (\<lambda>p. None)(sample_dest \<mapsto> ''previous export''), history = [],
      conns = [], reads = 0, stdout = []\<rparr>"

text \<open>The same world with one open connection, numbered 0.\<close>

definition connected_world :: world where
  "connected_world = sample_world\<lparr>conns := [True]\<rparr>"

section \<open>The fetch loop\<close>

lemma fetch_loop_invariant:
  assumes "fetch_loop e f cur n w = (r, w')"
    and "P w"
    and "\<And>v rows. P v \<Longrightarrow> P (fs_append f (writerows rows) v)"
  shows "P w'"
  using assms
proof (induction e f cur n w rule: fetch_loop.induct)
  case (1 e f cur row_count w)
  obtain res cur' where fm: "fetchmany e cur = (res, cur')"
    by (cases "fetchmany e cur")
  show ?case
  proof (cases res)
    case (Inl err)
    with fm "1.prems"(1,2) show ?thesis by (simp add: fetch_loop.simps [of e f cur])
  next
    case (Inr rows)
    show ?thesis
    proof (cases "rows = []")
      case True
      with fm Inr "1.prems"(1,2) show ?thesis by (simp add: fetch_loop.simps [of e f cur])
    next
      case False
      note ne = this
      show ?thesis
      proof (cases "write_fails_at e = Some (fetches cur)")
        case True
        with ne fm Inr "1.prems"(1,2) show ?thesis by (simp add: fetch_loop.simps [of e f cur])
      next
        case False
        with ne fm Inr "1.prems"(1)
        have rec: "fetch_loop e f cur' (row_count + length rows) (fs_append f (writerows rows) w) = (r, w')"
          by (simp add: fetch_loop.simps [of e f cur])
        have "P (fs_append f (writerows rows) w)"
          by (rule "1.prems"(3) [OF "1.prems"(2)])
        from "1.IH" [OF fm [symmetric] Inr ne False rec this "1.prems"(3)]
        show ?thesis .
      qed
    qed
  qed
qed

lemma fetch_loop_frame:
  assumes "fetch_loop e f cur n w = (r, w')"
  shows "conns w' = conns w" and "reads w' = reads w" and "stdout w' = stdout w"
    and "q \<noteq> f \<Longrightarrow> files w' q = files w q"
proof -
  show "conns w' = conns w"
    by (rule fetch_loop_invariant [OF assms, where P = "\<lambda>v. conns v = conns w"])
       (simp_all add: fs_append_def fs_step_def)
  show "reads w' = reads w"
    by (rule fetch_loop_invariant [OF assms, where P = "\<lambda>v. reads v = reads w"])
       (simp_all add: fs_append_def fs_step_def)
  show "stdout w' = stdout w"
    by (rule fetch_loop_invariant [OF assms, where P = "\<lambda>v. stdout v = stdout w"])
       (simp_all add: fs_append_def fs_step_def)
  show "q \<noteq> f \<Longrightarrow> files w' q = files w q"
    by (rule fetch_loop_invariant [OF assms, where P = "\<lambda>v. files v q = files w q"])
       (simp_all add: fs_append_def fs_step_def)
qed

lemma fetch_loop_history:
  assumes "fetch_loop e f cur n w = (r, w')"
  shows "\<exists>ext. history w' = history w @ ext \<and> writes_only f (files w) ext"
  by (rule fetch_loop_invariant [OF assms,
        where P = "\<lambda>v. (\<exists>ext. history v = history w @ ext \<and> writes_only f (files w) ext)
                        \<and> (\<forall>q. q \<noteq> f \<longrightarrow> files v q = files w q)", THEN conjunct1])
     (auto simp: fs_append_def fs_step_def writes_only_def)

lemma writerows_append: "writerows (xs @ ys) = writerows xs @ writerows ys"
  by (simp add: writerows_def)

lemma writerows_take_drop: "writerows (take k xs) @ writerows (drop k xs) = writerows xs"
  by (simp flip: writerows_append)

lemma fetch_loop_Inr:
  "fetch_loop e f cur n w = (Inr m, w') \<Longrightarrow> 0 < arraysize cur \<Longrightarrow> files w f = Some c \<Longrightarrow>
     m = n + length (pending cur) \<and> files w' f = Some (c @ writerows (pending cur))"
proof (induction e f cur n w arbitrary: c rule: fetch_loop.induct)
  case (1 e f cur row_count w)
  obtain res cur' where fm: "fetchmany e cur = (res, cur')"
    by (cases "fetchmany e cur")
  show ?case
  proof (cases res)
    case (Inl err)
    with fm "1.prems" show ?thesis by (simp add: fetch_loop.simps [of e f cur])
  next
    case (Inr rows)
    from fm Inr have rows: "rows = take (arraysize cur) (pending cur)"
      and cur': "pending cur' = drop (arraysize cur) (pending cur)" "arraysize cur' = arraysize cur"
      by (auto simp: fetchmany_def split: if_splits)
    show ?thesis
    proof (cases "rows = []")
      case True
      with rows "1.prems"(2) have "pending cur = []" by simp
      with True fm Inr "1.prems" show ?thesis by (simp add: fetch_loop.simps [of e f cur] writerows_def)
    next
      case False
      with fm Inr "1.prems"(1) have nf: "write_fails_at e \<noteq> Some (fetches cur)"
        and rec: "fetch_loop e f cur' (row_count + length rows) (fs_append f (writerows rows) w) = (Inr m, w')"
        by (auto simp: fetch_loop.simps [of e f cur] split: if_splits)
      have "files (fs_append f (writerows rows) w) f = Some (c @ writerows rows)"
        using "1.prems"(3) by (simp add: fs_append_def fs_step_def)
      from "1.IH" [OF fm [symmetric] Inr False nf rec _ this] cur' "1.prems"(2)
      have "m = row_count + length rows + length (drop (arraysize cur) (pending cur))"
        and "files w' f = Some ((c @ writerows rows) @ writerows (drop (arraysize cur) (pending cur)))"
        by simp_all
      moreover have "writerows rows @ writerows (drop (arraysize cur) (pending cur)) = writerows (pending cur)"
        unfolding rows by (rule writerows_take_drop)
      moreover have "length rows + length (drop (arraysize cur) (pending cur)) = length (pending cur)"
        unfolding rows by simp
      ultimately show ?thesis by simp
    qed
  qed
qed

lemma fetch_loop_returns:
  "fetch_fails_at e = None \<Longrightarrow> write_fails_at e = None \<Longrightarrow> \<exists>m w'. fetch_loop e f cur n w = (Inr m, w')"
proof (induction e f cur n w rule: fetch_loop.induct)
  case (1 e f cur row_count w)
  obtain res cur' where fm: "fetchmany e cur = (res, cur')"
    by (cases "fetchmany e cur")
  with "1.prems" obtain rows where Inr: "res = Inr rows"
    by (auto simp: fetchmany_def)
  show ?case
  proof (cases "rows = []")
    case True
    with fm Inr show ?thesis by (simp add: fetch_loop.simps [of e f cur])
  next
    case False
    from "1.IH" [OF fm [symmetric] Inr False _ "1.prems"] "1.prems"
    show ?thesis using fm Inr False by (simp add: fetch_loop.simps [of e f cur])
  qed
qed


section \<open>The streaming function\<close>

lemma writes_only_append:
  "writes_only f f0 (xs @ ys) \<longleftrightarrow> writes_only f f0 xs \<and> writes_only f f0 ys"
  by (simp add: writes_only_def)

lemma writes_only_shift:
  assumes "writes_only f f1 ext" and "\<And>q. q \<noteq> f \<Longrightarrow> f1 q = f0 q"
  shows "writes_only f f0 ext"
  using assms by (auto simp: writes_only_def list_all_iff)

lemma stream_effect:
  assumes "stream_query_to_local_csv e cxn p asize hdr w = (r, w')"
  shows "conns w' = conns w" and "reads w' = reads w" and "stdout w' = stdout w"
    and "q \<noteq> p \<Longrightarrow> files w' q = files w q"
    and "\<exists>ext. history w' = history w @ ext \<and> writes_only p (files w) ext"
proof -
  let ?cur = "\<lparr>arraysize = asize, pending = result_rows e, fetches = 0\<rparr>"
  let ?w1 = "fs_open_w p w"
  let ?w2 = "if hdr then fs_append p (writerow (map PyStr (the (description e)))) ?w1 else ?w1"
  have base: "conns ?w2 = conns w" "reads ?w2 = reads w" "stdout ?w2 = stdout w"
    "\<And>q. q \<noteq> p \<Longrightarrow> files ?w2 q = files w q"
    "\<exists>ext. history ?w2 = history w @ ext \<and> writes_only p (files w) ext"
    by (simp_all add: fs_open_w_def fs_append_def fs_step_def writes_only_def)
  consider (same) "w' = w" | (loop) "fetch_loop e p ?cur 0 ?w2 = (r, w')"
    using assms
    by (auto simp: stream_query_to_local_csv_def Let_def split: if_splits option.splits)
  then have "conns w' = conns w \<and> reads w' = reads w \<and> stdout w' = stdout w
      \<and> (q \<noteq> p \<longrightarrow> files w' q = files w q)
      \<and> (\<exists>ext. history w' = history w @ ext \<and> writes_only p (files w) ext)"
  proof cases
    case same
    then show ?thesis by (simp add: writes_only_def)
  next
    case loop
    from fetch_loop_history [OF loop] obtain ext2
      where e2: "history w' = history ?w2 @ ext2" "writes_only p (files ?w2) ext2" by blast
    from base(5) obtain ext1
      where e1: "history ?w2 = history w @ ext1" "writes_only p (files w) ext1" by blast
    have "writes_only p (files w) ext2"
      by (rule writes_only_shift [OF e2(2)]) (rule base(4))
    with e1 e2 have "history w' = history w @ (ext1 @ ext2) \<and> writes_only p (files w) (ext1 @ ext2)"
      by (simp add: writes_only_append)
    then have "\<exists>ext. history w' = history w @ ext \<and> writes_only p (files w) ext" by blast
    with fetch_loop_frame [OF loop] base show ?thesis by simp
  qed
  then show "conns w' = conns w" and "reads w' = reads w" and "stdout w' = stdout w"
    and "q \<noteq> p \<Longrightarrow> files w' q = files w q"
    and "\<exists>ext. history w' = history w @ ext \<and> writes_only p (files w) ext"
    by simp_all
qed

lemma stream_Inr:
  assumes "stream_query_to_local_csv e cxn p asize True w = (Inr n, w')" and "0 < asize"
  shows "n = length (result_rows e)"
    and "\<exists>cols. description e = Some cols \<and> files w' p = Some (complete_export cols (result_rows e))"
proof -
  from assms(1) obtain cols where cols: "description e = Some cols"
    and loop: "fetch_loop e p \<lparr>arraysize = asize, pending = result_rows e, fetches = 0\<rparr> 0
                 (fs_append p (writerow (map PyStr cols)) (fs_open_w p w)) = (Inr n, w')"
    by (auto simp: stream_query_to_local_csv_def Let_def split: if_splits option.splits)
  have "files (fs_append p (writerow (map PyStr cols)) (fs_open_w p w)) p = Some (writerow (map PyStr cols))"
    by (simp add: fs_open_w_def fs_append_def fs_step_def)
  from fetch_loop_Inr [OF loop _ this] assms(2) cols
  show "n = length (result_rows e)"
    and "\<exists>cols. description e = Some cols \<and> files w' p = Some (complete_export cols (result_rows e))"
    by (simp_all add: complete_export_def)
qed

lemma stream_returns:
  assumes "is_open cxn w" and "\<not> execute_fails e" and "description e \<noteq> None"
    and "\<not> open_fails e" and "fetch_fails_at e = None" and "write_fails_at e = None"
  shows "\<exists>n w'. stream_query_to_local_csv e cxn p asize hdr w = (Inr n, w')"
  using assms fetch_loop_returns [OF assms(5,6)]
  by (auto simp: stream_query_to_local_csv_def Let_def)


lemma fetch_loop_files:
  assumes "fetch_fails_at e = None" and "write_fails_at e = None" and "0 < arraysize cur"
    and "files w f = Some c"
  shows "fst (fetch_loop e f cur n w) = Inr (n + length (pending cur))"
    and "files (snd (fetch_loop e f cur n w)) = (files w)(f \<mapsto> c @ writerows (pending cur))"
proof -
  from fetch_loop_returns [OF assms(1,2)] obtain m w'
    where run: "fetch_loop e f cur n w = (Inr m, w')" by blast
  from fetch_loop_Inr [OF run assms(3,4)]
  have m: "m = n + length (pending cur)" and at_f: "files w' f = Some (c @ writerows (pending cur))"
    by simp_all
  have "files w' q = ((files w)(f \<mapsto> c @ writerows (pending cur))) q" for q
    using at_f fetch_loop_frame(4) [OF run, of q] by simp
  then have "files w' = (files w)(f \<mapsto> c @ writerows (pending cur))" by (rule ext)
  with run m show "fst (fetch_loop e f cur n w) = Inr (n + length (pending cur))"
    and "files (snd (fetch_loop e f cur n w)) = (files w)(f \<mapsto> c @ writerows (pending cur))"
    by simp_all
qed

lemma stream_files:
  assumes "fetch_fails_at e = None" and "write_fails_at e = None" and "0 < asize"
  shows "fst (stream_query_to_local_csv e cxn p asize hdr w) =
           (if \<not> is_open cxn w then Inl ClosedConnection
            else if execute_fails e then Inl ExecuteError
            else if description e = None then Inl NoResultSet
            else if open_fails e then Inl OpenError
            else Inr (length (result_rows e)))"
    and "is_open cxn w \<Longrightarrow> \<not> execute_fails e \<Longrightarrow> description e = Some cols \<Longrightarrow> \<not> open_fails e \<Longrightarrow>
         files (snd (stream_query_to_local_csv e cxn p asize hdr w)) =
           (files w)(p \<mapsto> (if hdr then writerow (map PyStr cols) else []) @ writerows (result_rows e))"
proof -
  let ?cur = "\<lparr>arraysize = asize, pending = result_rows e, fetches = 0\<rparr>"
  have cur: "0 < arraysize ?cur" using assms(3) by simp
  {
    fix cols
    let ?w2 = "if hdr then fs_append p (writerow (map PyStr cols)) (fs_open_w p w) else fs_open_w p w"
    let ?c = "(if hdr then writerow (map PyStr cols) else [])"
    have c: "files ?w2 p = Some ?c"
      by (simp add: fs_open_w_def fs_append_def fs_step_def)
    have fs: "(files ?w2)(p \<mapsto> x) = (files w)(p \<mapsto> x)" for x
      by (simp add: fs_open_w_def fs_append_def fs_step_def)
    from fetch_loop_files [OF assms(1,2) cur c, of 0]
    have "fst (fetch_loop e p ?cur 0 ?w2) = Inr (length (result_rows e))"
      and "files (snd (fetch_loop e p ?cur 0 ?w2)) = (files w)(p \<mapsto> ?c @ writerows (result_rows e))"
      by (simp_all add: fs)
  }
  note loop = this
  show "fst (stream_query_to_local_csv e cxn p asize hdr w) =
           (if \<not> is_open cxn w then Inl ClosedConnection
            else if execute_fails e then Inl ExecuteError
            else if description e = None then Inl NoResultSet
            else if open_fails e then Inl OpenError
            else Inr (length (result_rows e)))"
    using loop(1) by (auto simp: stream_query_to_local_csv_def Let_def)
  show "is_open cxn w \<Longrightarrow> \<not> execute_fails e \<Longrightarrow> description e = Some cols \<Longrightarrow> \<not> open_fails e \<Longrightarrow>
         files (snd (stream_query_to_local_csv e cxn p asize hdr w)) =
           (files w)(p \<mapsto> (if hdr then writerow (map PyStr cols) else []) @ writerows (result_rows e))"
    using loop(2) [of cols] by (simp add: stream_query_to_local_csv_def Let_def)
qed

section \<open>Properties of the export\<close>

text \<open>
  Claim C7 (batch size invariance). For a cursor that yields its rows without failing,
  any two batch sizes of at least 1 give the same result and leave the same files: the
  batch size changes how the rows are grouped into fetches, not what is written nor in
  which order.
\<close>

theorem batch_size_invariance:
  assumes "0 < n" and "0 < m" and "fetch_fails_at e = None" and "write_fails_at e = None"
  shows "fst (stream_query_to_local_csv e cxn p n hdr w)
           = fst (stream_query_to_local_csv e cxn p m hdr w)
      \<and> files (snd (stream_query_to_local_csv e cxn p n hdr w))
           = files (snd (stream_query_to_local_csv e cxn p m hdr w))"
proof (cases "is_open cxn w \<and> \<not> execute_fails e \<and> description e \<noteq> None \<and> \<not> open_fails e")
  case True
  then obtain cols where "description e = Some cols" by auto
  with True stream_files(2) [OF assms(3,4,1), of cxn w cols p hdr]
    stream_files(2) [OF assms(3,4,2), of cxn w cols p hdr]
    stream_files(1) [OF assms(3,4,1), of cxn p hdr w]
    stream_files(1) [OF assms(3,4,2), of cxn p hdr w]
  show ?thesis by simp
next
  case False
  then show ?thesis
    by (auto simp: stream_query_to_local_csv_def split: option.splits)
qed

theorem batch_size_invariance_witness:
  "fst (stream_query_to_local_csv sample_env 0 (local_tmp_path sample_env) 1 True connected_world)
     = fst (stream_query_to_local_csv sample_env 0 (local_tmp_path sample_env) 100000 True connected_world)
   \<and> files (snd (stream_query_to_local_csv sample_env 0 (local_tmp_path sample_env) 1 True connected_world))
     = files (snd (stream_query_to_local_csv sample_env 0 (local_tmp_path sample_env) 100000 True connected_world))"
  using batch_size_invariance [of 1 100000 sample_env 0 "local_tmp_path sample_env" True connected_world]
  by (simp add: sample_env_def)


end
